theory Spec2Isabelle
  imports Main
begin

section \<open>Values, errors and the objects of the simulation engine\<close>

text \<open>
  The development embeds \<^verbatim>\<open>openmmtools/openmm_torch/repex.py\<close>: the resolution of the
  atoms treated by the learned potential, the check of these atoms against the rigid-bond
  constraints, the builder of the mixed system and the builder of the replica-exchange
  sampler.

  Python values that this code only stores, compares or hands on are values of
  \<open>pyval\<close>; \<open>PyObj\<close> is an object of an external library (a quantity, a positions
  array, a callable) that this code never looks into. A keyword dictionary is a map from
  key to value.
\<close>

datatype pyval = PyStr string | PyInt int | PyBool bool | PyNone | PyObj nat

type_synonym kwargs = "string \<rightharpoonup> pyval"

text \<open>
  Every way in which the code itself stops with an exception is a constructor: the two
  assertions of the resolver with the data of their messages, the \<^verbatim>\<open>ValueError\<close> of
  its last branch, the \<^verbatim>\<open>Exception\<close> of the constraint check with the offending
  atoms, and the exceptions of the Python operations the code performs (a missing
  dictionary key, a value of the wrong type, a variable read before it is bound, a file that
  is missing, an index out of range in the engine's system). \<open>External_error\<close> is an
  exception raised inside the external atom selection.
\<close>

datatype error =
    Residue_count_assertion "string option" nat
  | Not_ascending_assertion "int list"
  | ValueError string
  | Constraint_exception "int set"
  | KeyError string
  | TypeError
  | UnboundLocalError
  | FileNotFoundError string
  | OpenMMException
  | External_error string

subsection \<open>Topology\<close>

text \<open>
  An \<^verbatim>\<open>openmm.app.Topology\<close> is a list of chains, a chain a list of residues, a
  residue has a name and a list of atoms, an atom carries its index.
  \<^verbatim>\<open>topology.residues()\<close> runs through the residues of every chain in order.
\<close>

record atom =
  atom_name :: string
  atom_index :: int

record residue =
  residue_name :: string
  residue_atoms :: "atom list"

record chain =
  chain_residues :: "residue list"

record topology =
  topology_chains :: "chain list"

definition residues :: "topology \<Rightarrow> residue list" where
  "residues topology = concat (map chain_residues (topology_chains topology))"

subsection \<open>System\<close>

text \<open>
  Of an \<^verbatim>\<open>openmm.System\<close> the code reads the constraints only: each is a pair of
  particle indices and a distance. \<^verbatim>\<open>getConstraintParameters\<close> raises for an index
  that is out of range.
\<close>

record openmm_system =
  system_constraints :: "(int \<times> int \<times> pyval) list"

definition getNumConstraints :: "openmm_system \<Rightarrow> nat" where
  "getNumConstraints system = length (system_constraints system)"

definition getConstraintParameters :: "openmm_system \<Rightarrow> nat \<Rightarrow> error + (int \<times> int \<times> pyval)" where
  "getConstraintParameters system idx =
     (if idx < length (system_constraints system)
      then Inr (system_constraints system ! idx)
      else Inl OpenMMException)"

section \<open>Resolution of the atoms\<close>

text \<open>
  \<^verbatim>\<open>get_atoms_from_resname(topology, nnpify_id, nnpify_type)\<close>.

  In the \<^verbatim>\<open>"chain"\<close> mode the atoms are what the external selection language returns
  for the query \<^verbatim>\<open>chainid == <nnpify_id>\<close> on the converted topology; conversion and
  selection are one parameter \<open>select\<close> of the model, which returns the selected indices
  or the exception raised. The result is returned as it is.

  In the \<^verbatim>\<open>"resname"\<close> mode the names equal to \<^verbatim>\<open>nnpify_id\<close> are collected and
  their number is asserted to be one; a loop then leaves \<^verbatim>\<open>residue\<close> bound to the
  first residue of that name (to the last residue when no name matches, and unbound on an
  empty topology); its atom indices are appended one by one and asserted to be equal to
  their sorted copy.

  \<^verbatim>\<open>nnpify_id\<close> is \<open>None\<close> for Python's \<^verbatim>\<open>None\<close>, the default of the mixed-system
  builder, which is equal to no residue name. The two \<^verbatim>\<open>assert\<close> statements are
  executed, as they are when Python runs without \<^verbatim>\<open>-O\<close>.
\<close>

definition format_id :: "string option \<Rightarrow> string" where
  "format_id nnpify_id = (case nnpify_id of None \<Rightarrow> ''None'' | Some s \<Rightarrow> s)"

fun residue_loop :: "residue list \<Rightarrow> string option \<Rightarrow> residue option \<Rightarrow> residue option" where
  "residue_loop [] nnpify_id residue = residue"
| "residue_loop (r # rs) nnpify_id residue =
     (if Some (residue_name r) = nnpify_id then Some r
      else residue_loop rs nnpify_id (Some r))"

fun atoms_loop :: "atom list \<Rightarrow> int list \<Rightarrow> int list" where
  "atoms_loop [] atoms = atoms"
| "atoms_loop (a # as) atoms = atoms_loop as (atoms @ [atom_index a])"

definition get_atoms_from_resname ::
  "(topology \<Rightarrow> string \<Rightarrow> error + int list) \<Rightarrow> topology \<Rightarrow> string option \<Rightarrow> string
     \<Rightarrow> error + int list" where
  "get_atoms_from_resname select topology nnpify_id nnpify_type =
     (if nnpify_type = ''chain'' then
        select topology (''chainid == '' @ format_id nnpify_id)
      else if nnpify_type = ''resname'' then
        (let all_resnames =
           map residue_name (filter (\<lambda>res. Some (residue_name res) = nnpify_id) (residues topology))
         in
         if length all_resnames \<noteq> 1 then
           Inl (Residue_count_assertion nnpify_id (length all_resnames))
         else
           (case residue_loop (residues topology) nnpify_id None of
              None \<Rightarrow> Inl UnboundLocalError
            | Some residue \<Rightarrow>
                (let atoms = atoms_loop (residue_atoms residue) [] in
                 if sort atoms = atoms then Inr atoms
                 else Inl (Not_ascending_assertion atoms))))
      else Inl (ValueError ''Either chain or resname must be set''))"

section \<open>The constraint check\<close>

text \<open>
  \<^verbatim>\<open>assert_no_residue_constraints(system, atoms)\<close>: the two particle indices of every
  constraint are appended to one list, and the exception is raised when the set of this
  list and the set of the atoms have an element in common. It returns nothing.
\<close>

fun constraints_loop :: "openmm_system \<Rightarrow> nat list \<Rightarrow> int list \<Rightarrow> error + int list" where
  "constraints_loop system [] all_constraints = Inr all_constraints"
| "constraints_loop system (idx # idxs) all_constraints =
     (case getConstraintParameters system idx of
        Inl e \<Rightarrow> Inl e
      | Inr (p1, p2, _) \<Rightarrow> constraints_loop system idxs ((all_constraints @ [p1]) @ [p2]))"

definition assert_no_residue_constraints :: "openmm_system \<Rightarrow> int list \<Rightarrow> error + unit" where
  "assert_no_residue_constraints system atoms =
     (let atom_set = set atoms in
      case constraints_loop system [0..<getNumConstraints system] [] of
        Inl e \<Rightarrow> Inl e
      | Inr all_constraints \<Rightarrow>
          (let set_intersect = set all_constraints \<inter> atom_set in
           if set_intersect \<noteq> {} then Inl (Constraint_exception set_intersect)
           else Inr ()))"

section \<open>External calls and the file system\<close>

text \<open>
  Everything else is done by external libraries. A call into one of them is recorded, with
  the arguments handed over, in a trace; the object it returns is named by the call that
  made it. Binding the arguments to the callee's parameters and all the callee does,
  its own exceptions included, belong to the callee and are outside this development:
  a recorded call returns.

  The file system is the set of the paths of its regular files. A path is a string; for
  any other value \<^verbatim>\<open>os.path.isfile\<close> and \<^verbatim>\<open>os.remove\<close> stop with
  \<^verbatim>\<open>TypeError\<close> here, as they do for \<^verbatim>\<open>None\<close>, and no theorem is about that
  case.
\<close>

record createMixedSystem_args =
  arg_topology :: topology
  arg_system :: openmm_system
  arg_atoms :: "int list"
  arg_implementation :: string
  arg_interpolate :: bool
  arg_createMixedSystem_kwargs :: kwargs

record setup_args =
  arg_n_states :: int
  arg_mixed_system :: pyval
  arg_init_positions :: pyval
  arg_temperature :: pyval
  arg_storage_kwargs :: kwargs
  arg_setup_equilibration_intervals :: int
  arg_equilibration_protocol :: string
  arg_steps_per_setup_equilibration_interval :: int
  arg_extra_kwargs :: kwargs

datatype ext_obj =
    Fastest_platform string
  | ContextCache ext_obj
  | Mcmc_moves pyval kwargs
  | Sampler_from_storage pyval
  | NNPRepexSampler ext_obj kwargs
  | MLPotential "string option"
  | Mixed_system ext_obj createMixedSystem_args

datatype message =
    Treating_atom_indices "int list"
  | Removing_storage_file pyval
  | Restarting_simulation_from_file pyval
  | Starting_from_scratch

datatype event =
    Call ext_obj
  | Set_attribute ext_obj string ext_obj
  | Setup ext_obj setup_args
  | Setup_decouple ext_obj setup_args
  | Print message
  | Logging_info message

record world =
  files :: "string set"
  trace :: "event list"

definition emit :: "event \<Rightarrow> world \<Rightarrow> world" where
  "emit e w = w\<lparr>trace := trace w @ [e]\<rparr>"




section \<open>The builder of the mixed system\<close>

text \<open>
  \<^verbatim>\<open>MixedSystemConstructor.__init__\<close> stores its arguments, resolves the atoms, prints
  them, checks them against the constraints of the system and creates the potential. An
  exception of the resolver or of the check leaves no object. The property
  \<^verbatim>\<open>mixed_system\<close> calls \<^verbatim>\<open>createMixedSystem\<close> of the potential.
\<close>

record mixed_system_constructor =
  msc_system :: openmm_system
  msc_topology :: topology
  msc_nnpify_id :: "string option"
  msc_implementation :: "string option"
  msc_interpolate :: bool
  msc_atom_indices :: "int list"
  msc_nnp_potential_str :: "string option"
  msc_nnp_potential :: ext_obj
  msc_createMixedSystem_kwargs :: kwargs

definition MixedSystemConstructor_init ::
  "(topology \<Rightarrow> string \<Rightarrow> error + int list) \<Rightarrow> openmm_system \<Rightarrow> topology \<Rightarrow> string option
     \<Rightarrow> string \<Rightarrow> string option \<Rightarrow> string option \<Rightarrow> bool \<Rightarrow> kwargs \<Rightarrow> world
     \<Rightarrow> (error + mixed_system_constructor) \<times> world" where
  "MixedSystemConstructor_init select system topology nnpify_id nnpify_type nnp_potential
       implementation interpolate createMixedSystem_kwargs w =
     (case get_atoms_from_resname select topology nnpify_id nnpify_type of
        Inl e \<Rightarrow> (Inl e, w)
      | Inr atom_indices \<Rightarrow>
          (let w1 = emit (Print (Treating_atom_indices atom_indices)) w in
           case assert_no_residue_constraints system atom_indices of
             Inl e \<Rightarrow> (Inl e, w1)
           | Inr _ \<Rightarrow>
               (let potential = MLPotential nnp_potential;
                    w2 = emit (Call potential) w1
                in (Inr \<lparr>msc_system = system,
                         msc_topology = topology,
                         msc_nnpify_id = nnpify_id,
                         msc_implementation = implementation,
                         msc_interpolate = interpolate,
                         msc_atom_indices = atom_indices,
                         msc_nnp_potential_str = nnp_potential,
                         msc_nnp_potential = potential,
                         msc_createMixedSystem_kwargs = createMixedSystem_kwargs\<rparr>, w2))))"

definition mixed_system :: "mixed_system_constructor \<Rightarrow> world \<Rightarrow> ext_obj \<times> world" where
  "mixed_system self w =
     (let mixed = Mixed_system (msc_nnp_potential self)
            \<lparr>arg_topology = msc_topology self,
             arg_system = msc_system self,
             arg_atoms = msc_atom_indices self,
             arg_implementation = ''nnpops'',
             arg_interpolate = msc_interpolate self,
             arg_createMixedSystem_kwargs = msc_createMixedSystem_kwargs self\<rparr>
      in (mixed, emit (Call mixed) w))"

section \<open>The builder of the replica-exchange sampler\<close>










section \<open>Observations on traces\<close>

text \<open>
  The events a run adds to the trace, and the two kinds of event the properties below
  single out: a call of \<^verbatim>\<open>setup\<close> or \<^verbatim>\<open>setup_decouple\<close>, and a call of
  \<^verbatim>\<open>createMixedSystem\<close>.
\<close>

definition new_events :: "world \<Rightarrow> world \<Rightarrow> event list" where
  "new_events w w' = drop (length (trace w)) (trace w')"


fun is_createMixedSystem :: "event \<Rightarrow> bool" where
  "is_createMixedSystem (Call (Mixed_system potential args)) = True"
| "is_createMixedSystem e = False"

section \<open>Example inputs\<close>

text \<open>
  A topology with a water and a two-atom ligand, the same ligand with its atoms listed
  out of order, two stand-ins for the external selection (one that raises, one that
  returns the atoms of the topology from last to first), a system with two
  constraints, one of them on a ligand atom, and a system whose only constraint is away
  from the ligand.
\<close>

definition lig_topology :: topology where
  "lig_topology = \<lparr>topology_chains = [\<lparr>chain_residues =
     [\<lparr>residue_name = ''HOH'', residue_atoms = [\<lparr>atom_name = ''O'', atom_index = 0\<rparr>]\<rparr>,
      \<lparr>residue_name = ''LIG'', residue_atoms =
         [\<lparr>atom_name = ''C1'', atom_index = 1\<rparr>, \<lparr>atom_name = ''C2'', atom_index = 2\<rparr>]\<rparr>]\<rparr>]\<rparr>"

definition unordered_topology :: topology where
  "unordered_topology = \<lparr>topology_chains = [\<lparr>chain_residues =
     [\<lparr>residue_name = ''LIG'', residue_atoms =
         [\<lparr>atom_name = ''C2'', atom_index = 2\<rparr>, \<lparr>atom_name = ''C1'', atom_index = 1\<rparr>]\<rparr>]\<rparr>]\<rparr>"

definition no_selection :: "topology \<Rightarrow> string \<Rightarrow> error + int list" where
  "no_selection topology query = Inl (External_error query)"


definition two_constraints :: openmm_system where
  "two_constraints = \<lparr>system_constraints = [(0, 1, PyObj 0), (4, 5, PyObj 0)]\<rparr>"

definition far_constraint :: openmm_system where
  "far_constraint = \<lparr>system_constraints = [(4, 5, PyObj 0)]\<rparr>"

text \<open>
  The object that \<^verbatim>\<open>MixedSystemConstructor\<close> makes for the ligand of the first
  topology and the second system, with the \<^verbatim>\<open>implementation\<close> argument left open.
\<close>

definition ligand_object :: "string option \<Rightarrow> mixed_system_constructor" where
  "ligand_object implementation =
     \<lparr>msc_system = far_constraint,
      msc_topology = lig_topology,
      msc_nnpify_id = Some ''LIG'',
      msc_implementation = implementation,
      msc_interpolate = True,
      msc_atom_indices = [1, 2],
      msc_nnp_potential_str = Some ''ani2x'',
      msc_nnp_potential = MLPotential (Some ''ani2x''),
      msc_createMixedSystem_kwargs = Map.empty\<rparr>"






definition world_without_file :: world where
  "world_without_file = \<lparr>files = {}, trace = []\<rparr>"

section \<open>The loops in closed form\<close>

lemma atoms_loop_append: "atoms_loop as atoms = atoms @ map atom_index as"
  by (induction as arbitrary: atoms) simp_all

lemma residue_loop_single:
  "filter (\<lambda>res. Some (residue_name res) = nnpify_id) rs = [r] \<Longrightarrow>
   residue_loop rs nnpify_id residue = Some r"
proof (induction rs arbitrary: residue)
  case Nil
  then show ?case by simp
next
  case (Cons a rs)
  show ?case
  proof (cases "Some (residue_name a) = nnpify_id")
    case True
    with Cons.prems have "a = r" by simp
    with True show ?thesis by simp
  next
    case False
    with Cons.prems have "filter (\<lambda>res. Some (residue_name res) = nnpify_id) rs = [r]" by simp
    from Cons.IH [OF this] False show ?thesis by simp
  qed
qed

lemma length_one_single: "length xs = 1 \<Longrightarrow> \<exists>x. xs = [x]"
  by (cases xs) auto

lemma sort_fixpoint: "(sort xs = xs) = sorted xs"
  by (metis sorted_sort sorted_sort_id)

lemma resname_mode:
  "get_atoms_from_resname select topology nnpify_id ''resname'' =
     (case filter (\<lambda>res. Some (residue_name res) = nnpify_id) (residues topology) of
        [residue] \<Rightarrow>
          (if sorted (map atom_index (residue_atoms residue))
           then Inr (map atom_index (residue_atoms residue))
           else Inl (Not_ascending_assertion (map atom_index (residue_atoms residue))))
      | matches \<Rightarrow> Inl (Residue_count_assertion nnpify_id (length matches)))"
proof (cases "length (filter (\<lambda>res. Some (residue_name res) = nnpify_id) (residues topology)) = 1")
  case True
  then obtain r where r: "filter (\<lambda>res. Some (residue_name res) = nnpify_id) (residues topology) = [r]"
    using length_one_single by blast
  have "residue_loop (residues topology) nnpify_id None = Some r"
    by (rule residue_loop_single [OF r])
  with r show ?thesis
    by (simp add: get_atoms_from_resname_def atoms_loop_append sort_fixpoint)
next
  case False
  then show ?thesis
    by (auto simp: get_atoms_from_resname_def Let_def split: list.splits)
qed

lemma constraints_loop_in_range:
  "\<forall>i \<in> set idxs. i < length (system_constraints system) \<Longrightarrow>
   constraints_loop system idxs acc =
     Inr (acc @ concat (map (\<lambda>i. [fst (system_constraints system ! i),
                                   fst (snd (system_constraints system ! i))]) idxs))"
proof (induction idxs arbitrary: acc)
  case Nil
  then show ?case by simp
next
  case (Cons i idxs)
  then show ?case
    by (simp add: getConstraintParameters_def split: prod.splits)
qed

lemma constraints_loop_all:
  "constraints_loop system [0..<getNumConstraints system] [] =
     Inr (concat (map (\<lambda>c. [fst c, fst (snd c)]) (system_constraints system)))"
proof -
  have "concat (map (\<lambda>i. [fst (system_constraints system ! i),
                            fst (snd (system_constraints system ! i))])
                  [0..<length (system_constraints system)])
      = concat (map (\<lambda>c. [fst c, fst (snd c)])
                  (map (\<lambda>i. system_constraints system ! i) [0..<length (system_constraints system)]))"
    by (simp add: comp_def)
  also have "\<dots> = concat (map (\<lambda>c. [fst c, fst (snd c)]) (system_constraints system))"
    by (simp only: map_nth)
  finally show ?thesis
    by (simp add: getNumConstraints_def constraints_loop_in_range)
qed

lemma endpoints_meet:
  "(set (concat (map (\<lambda>c. [fst c, fst (snd c)]) cs)) \<inter> A \<noteq> {}) =
     (\<exists>(p1, p2, d) \<in> set cs. p1 \<in> A \<or> p2 \<in> A)"
  by (induction cs) auto

lemma assert_no_residue_constraints_eq:
  "assert_no_residue_constraints system atoms =
     (if \<exists>(p1, p2, d) \<in> set (system_constraints system). p1 \<in> set atoms \<or> p2 \<in> set atoms
      then Inl (Constraint_exception
             (set (concat (map (\<lambda>c. [fst c, fst (snd c)]) (system_constraints system))) \<inter> set atoms))
      else Inr ())"
  unfolding assert_no_residue_constraints_def constraints_loop_all Let_def
  by (simp only: sum.case endpoints_meet)

section \<open>The builders in closed form\<close>



lemma new_events_append [simp]:
  "new_events w \<lparr>files = fs, trace = trace w @ es\<rparr> = es"
  by (simp add: new_events_def)

lemma init_eq:
  "MixedSystemConstructor_init select system topology nnpify_id nnpify_type nnp_potential
       implementation interpolate createMixedSystem_kwargs w =
     (case get_atoms_from_resname select topology nnpify_id nnpify_type of
        Inl e \<Rightarrow> (Inl e, w)
      | Inr atom_indices \<Rightarrow>
          (case assert_no_residue_constraints system atom_indices of
             Inl e \<Rightarrow>
               (Inl e, \<lparr>files = files w,
                        trace = trace w @ [Print (Treating_atom_indices atom_indices)]\<rparr>)
           | Inr u \<Rightarrow>
               (Inr \<lparr>msc_system = system,
                     msc_topology = topology,
                     msc_nnpify_id = nnpify_id,
                     msc_implementation = implementation,
                     msc_interpolate = interpolate,
                     msc_atom_indices = atom_indices,
                     msc_nnp_potential_str = nnp_potential,
                     msc_nnp_potential = MLPotential nnp_potential,
                     msc_createMixedSystem_kwargs = createMixedSystem_kwargs\<rparr>,
                \<lparr>files = files w,
                 trace = trace w @ [Print (Treating_atom_indices atom_indices),
                                    Call (MLPotential nnp_potential)]\<rparr>)))"
  by (cases w) (simp add: MixedSystemConstructor_init_def emit_def Let_def split: sum.splits)

lemma mixed_system_eq:
  "mixed_system self w =
     (Mixed_system (msc_nnp_potential self)
        \<lparr>arg_topology = msc_topology self,
         arg_system = msc_system self,
         arg_atoms = msc_atom_indices self,
         arg_implementation = ''nnpops'',
         arg_interpolate = msc_interpolate self,
         arg_createMixedSystem_kwargs = msc_createMixedSystem_kwargs self\<rparr>,
      \<lparr>files = files w,
       trace = trace w @
         [Call (Mixed_system (msc_nnp_potential self)
            \<lparr>arg_topology = msc_topology self,
             arg_system = msc_system self,
             arg_atoms = msc_atom_indices self,
             arg_implementation = ''nnpops'',
             arg_interpolate = msc_interpolate self,
             arg_createMixedSystem_kwargs = msc_createMixedSystem_kwargs self\<rparr>)]\<rparr>)"
  by (cases w) (simp add: mixed_system_def emit_def Let_def)

lemma new_events_same [simp]: "new_events w w = []"
  by (simp add: new_events_def)

section \<open>The constraint check: properties\<close>

text \<open>
  C1. For every system and every list of selected atoms,
  \<^verbatim>\<open>assert_no_residue_constraints\<close> raises exactly when one of the two particles of
  some constraint of the system is among the atoms, and returns normally when no
  constraint touches the atoms.
\<close>

theorem assert_no_residue_constraints_iff:
  "((\<exists>e. assert_no_residue_constraints system atoms = Inl e) =
      (\<exists>(p1, p2, d) \<in> set (system_constraints system). p1 \<in> set atoms \<or> p2 \<in> set atoms))
   \<and> ((\<forall>(p1, p2, d) \<in> set (system_constraints system). p1 \<notin> set atoms \<and> p2 \<notin> set atoms)
        \<longrightarrow> assert_no_residue_constraints system atoms = Inr ())"
proof (cases "\<exists>(p1, p2, d) \<in> set (system_constraints system). p1 \<in> set atoms \<or> p2 \<in> set atoms")
  case True
  then have "\<exists>e. assert_no_residue_constraints system atoms = Inl e"
    by (simp add: assert_no_residue_constraints_eq)
  moreover from True
  have "\<not> (\<forall>(p1, p2, d) \<in> set (system_constraints system). p1 \<notin> set atoms \<and> p2 \<notin> set atoms)"
    by fastforce
  ultimately show ?thesis using True by blast
next
  case False
  then have "assert_no_residue_constraints system atoms = Inr ()"
    by (simp add: assert_no_residue_constraints_eq)
  with False show ?thesis by simp
qed

theorem assert_no_residue_constraints_iff_witness:
  "(\<exists>e. assert_no_residue_constraints two_constraints [1, 2, 3] = Inl e)
   \<and> assert_no_residue_constraints two_constraints [2, 3] = Inr ()"
  using assert_no_residue_constraints_iff [where system = two_constraints and atoms = "[1, 2, 3]"]
        assert_no_residue_constraints_iff [where system = two_constraints and atoms = "[2, 3]"]
  by (simp add: two_constraints_def)

section \<open>Resolution of the atoms: properties\<close>

text \<open>
  C3, as amended. Resolution by residue name raises the first assertion, with the number
  found, unless exactly one residue of the topology has the requested name. When exactly
  one residue has it, the atom indices of that residue are returned provided that they are
  in ascending order; otherwise the second assertion is raised.
\<close>

theorem resname_exactly_one:
  "(length (filter (\<lambda>res. Some (residue_name res) = nnpify_id) (residues topology)) \<noteq> 1 \<longrightarrow>
      get_atoms_from_resname select topology nnpify_id ''resname'' =
        Inl (Residue_count_assertion nnpify_id
              (length (filter (\<lambda>res. Some (residue_name res) = nnpify_id) (residues topology)))))
   \<and> (filter (\<lambda>res. Some (residue_name res) = nnpify_id) (residues topology) = [residue] \<longrightarrow>
        get_atoms_from_resname select topology nnpify_id ''resname'' =
          (if sorted (map atom_index (residue_atoms residue))
           then Inr (map atom_index (residue_atoms residue))
           else Inl (Not_ascending_assertion (map atom_index (residue_atoms residue)))))"
  by (auto simp: resname_mode split: list.splits)

theorem resname_exactly_one_witness:
  "get_atoms_from_resname no_selection lig_topology (Some ''LIG'') ''resname'' = Inr [1, 2]
   \<and> get_atoms_from_resname no_selection lig_topology (Some ''ALA'') ''resname''
       = Inl (Residue_count_assertion (Some ''ALA'') 0)"
  using resname_exactly_one [where nnpify_id = "Some ''LIG''" and topology = lig_topology
          and select = no_selection and residue =
          "\<lparr>residue_name = ''LIG'', residue_atoms =
             [\<lparr>atom_name = ''C1'', atom_index = 1\<rparr>, \<lparr>atom_name = ''C2'', atom_index = 2\<rparr>]\<rparr>"]
        resname_exactly_one [where nnpify_id = "Some ''ALA''" and topology = lig_topology
          and select = no_selection]
  by (simp add: lig_topology_def residues_def)

text \<open>
  The claim as first stated fails where the one matching residue lists its atoms out of
  order: exactly one residue is named \<^verbatim>\<open>LIG\<close>, and the resolution raises.
\<close>

theorem resname_exactly_one_counterexample:
  "length (filter (\<lambda>res. Some (residue_name res) = Some ''LIG'') (residues unordered_topology)) = 1
   \<and> get_atoms_from_resname no_selection unordered_topology (Some ''LIG'') ''resname''
       = Inl (Not_ascending_assertion [2, 1])"
  by (simp add: resname_mode unordered_topology_def residues_def)




text \<open>
  C10. For every \<^verbatim>\<open>nnpify_type\<close> other than \<^verbatim>\<open>"chain"\<close> and \<^verbatim>\<open>"resname"\<close> the
  resolution raises the \<^verbatim>\<open>ValueError\<close>, whatever the topology and the selection are:
  neither is looked at.
\<close>

theorem other_type_value_error:
  "nnpify_type \<noteq> ''chain'' \<Longrightarrow> nnpify_type \<noteq> ''resname'' \<Longrightarrow>
   get_atoms_from_resname select topology nnpify_id nnpify_type =
     Inl (ValueError ''Either chain or resname must be set'')"
  by (simp add: get_atoms_from_resname_def)

theorem other_type_value_error_witness:
  "''residue'' \<noteq> ''chain'' \<and> ''residue'' \<noteq> ''resname''
   \<and> get_atoms_from_resname no_selection lig_topology (Some ''LIG'') ''residue''
       = Inl (ValueError ''Either chain or resname must be set'')"
  using other_type_value_error [where nnpify_type = "''residue''" and select = no_selection
          and topology = lig_topology and nnpify_id = "Some ''LIG''"]
  by simp

section \<open>The builder of the mixed system: properties\<close>

text \<open>
  C8. The constructor creates no mixed system, and none can be created before the
  validation has succeeded. When the resolution of the atoms raises, the constructor raises
  with nothing done; when the resolution returns and the constraint check raises, the
  constructor raises after printing the atoms; in both cases no object exists whose
  \<^verbatim>\<open>mixed_system\<close> could be read. An object is returned only with atoms that the
  resolver returned and the check accepted, after the atoms were printed and the potential
  made, in this order; \<^verbatim>\<open>createMixedSystem\<close> is called by the property of such an
  object, and never by the constructor.
\<close>

theorem validation_precedes_mixed_system:
  "(get_atoms_from_resname select topology nnpify_id nnpify_type = Inl e \<longrightarrow>
      MixedSystemConstructor_init select system topology nnpify_id nnpify_type nnp_potential
          implementation interpolate createMixedSystem_kwargs w = (Inl e, w))
   \<and> (get_atoms_from_resname select topology nnpify_id nnpify_type = Inr atoms
        \<and> assert_no_residue_constraints system atoms = Inl e \<longrightarrow>
      MixedSystemConstructor_init select system topology nnpify_id nnpify_type nnp_potential
          implementation interpolate createMixedSystem_kwargs w =
        (Inl e, \<lparr>files = files w, trace = trace w @ [Print (Treating_atom_indices atoms)]\<rparr>))
   \<and> (fst (MixedSystemConstructor_init select system topology nnpify_id nnpify_type nnp_potential
          implementation interpolate createMixedSystem_kwargs w) = Inr self \<longrightarrow>
      get_atoms_from_resname select topology nnpify_id nnpify_type = Inr (msc_atom_indices self)
      \<and> assert_no_residue_constraints system (msc_atom_indices self) = Inr ()
      \<and> new_events w (snd (MixedSystemConstructor_init select system topology nnpify_id
            nnpify_type nnp_potential implementation interpolate createMixedSystem_kwargs w)) =
          [Print (Treating_atom_indices (msc_atom_indices self)), Call (MLPotential nnp_potential)]
      \<and> filter is_createMixedSystem (new_events w' (snd (mixed_system self w'))) =
          [Call (fst (mixed_system self w'))])
   \<and> filter is_createMixedSystem
        (new_events w (snd (MixedSystemConstructor_init select system topology nnpify_id
            nnpify_type nnp_potential implementation interpolate createMixedSystem_kwargs w))) = []"
  by (auto simp: init_eq mixed_system_eq split: sum.splits)

theorem validation_precedes_mixed_system_witness:
  "MixedSystemConstructor_init no_selection two_constraints lig_topology (Some ''LIG'') ''resname''
       (Some ''ani2x'') (Some ''nnpops'') True Map.empty world_without_file
     = (Inl (Constraint_exception {1}),
        \<lparr>files = {}, trace = [Print (Treating_atom_indices [1, 2])]\<rparr>)
   \<and> MixedSystemConstructor_init no_selection far_constraint lig_topology (Some ''ALA'') ''resname''
       (Some ''ani2x'') (Some ''nnpops'') True Map.empty world_without_file
     = (Inl (Residue_count_assertion (Some ''ALA'') 0), world_without_file)
   \<and> new_events world_without_file
        (snd (MixedSystemConstructor_init no_selection far_constraint lig_topology (Some ''LIG'')
           ''resname'' (Some ''ani2x'') (Some ''nnpops'') True Map.empty world_without_file))
     = [Print (Treating_atom_indices [1, 2]), Call (MLPotential (Some ''ani2x''))]"
  using validation_precedes_mixed_system [where select = no_selection and system = two_constraints
          and topology = lig_topology and nnpify_id = "Some ''LIG''" and nnpify_type = "''resname''"
          and nnp_potential = "Some ''ani2x''" and implementation = "Some ''nnpops''"
          and interpolate = True and createMixedSystem_kwargs = Map.empty
          and w = world_without_file and atoms = "[1, 2]" and e = "Constraint_exception {1}"]
        validation_precedes_mixed_system [where select = no_selection and system = far_constraint
          and topology = lig_topology and nnpify_id = "Some ''ALA''" and nnpify_type = "''resname''"
          and nnp_potential = "Some ''ani2x''" and implementation = "Some ''nnpops''"
          and interpolate = True and createMixedSystem_kwargs = Map.empty
          and w = world_without_file and e = "Residue_count_assertion (Some ''ALA'') 0"]
        validation_precedes_mixed_system [where select = no_selection and system = far_constraint
          and topology = lig_topology and nnpify_id = "Some ''LIG''" and nnpify_type = "''resname''"
          and nnp_potential = "Some ''ani2x''" and implementation = "Some ''nnpops''"
          and interpolate = True and createMixedSystem_kwargs = Map.empty
          and w = world_without_file and self = "ligand_object (Some ''nnpops'')"]
  by (simp add: resname_mode assert_no_residue_constraints_eq init_eq lig_topology_def
        residues_def two_constraints_def far_constraint_def world_without_file_def
        ligand_object_def)



section \<open>The builder of the sampler: properties\<close>










end
